theory Spec2Isabelle
  imports Main
begin

section \<open>The exact payment scheme for Sui: facilitator verification and settlement\<close>

text \<open>
  A shallow embedding of \<^verbatim>\<open>ExactSuiScheme\<close> (the facilitator scheme, file
  \<^verbatim>\<open>exact/facilitator/scheme.ts\<close>) and of \<^verbatim>\<open>coinTypesEqual\<close> (\<^verbatim>\<open>utils.ts\<close>).
  The \<^verbatim>\<open>FacilitatorSuiSigner\<close> the scheme is constructed with is a parameter: a record of
  functions over an abstract chain state. What the JavaScript runtime and the Sui SDK
  contribute (\<^verbatim>\<open>String.prototype.includes\<close>, \<^verbatim>\<open>BigInt\<close>, \<^verbatim>\<open>Promise.all\<close>,
  \<^verbatim>\<open>normalizeStructTag\<close>) is modelled or taken as a parameter, as said at each definition.
\<close>

subsection \<open>Thrown values\<close>

text \<open>
  A value thrown by a JavaScript call, or the reason a promise rejects with; any value
  can be one. \<open>JsError\<close> is an \<^verbatim>\<open>Error\<close> object with its message, a string as the
  type of \<^verbatim>\<open>Error\<close> declares. \<open>JsValue\<close> is any other value that \<^verbatim>\<open>String\<close> converts,
  kept as the text it converts to. \<open>JsUnprintable\<close> is a value that is no
  \<^verbatim>\<open>Error\<close> and has no conversion to a string, such as \<^verbatim>\<open>Object.create(null)\<close> or
  an object whose \<^verbatim>\<open>toString\<close> raises.

  \<open>errorText\<close> is the expression
  \<^verbatim>\<open>error instanceof Error ? error.message : String(error)\<close> of both catch blocks:
  on a value without conversion \<^verbatim>\<open>String\<close> raises a TypeError.
\<close>

datatype thrown = JsError string | JsValue string | JsUnprintable

fun errorText :: "thrown \<Rightarrow> thrown + string" where
  "errorText (JsError message) = Inr message"
| "errorText (JsValue shown) = Inr shown"
| "errorText JsUnprintable = Inl (JsError ''Cannot convert object to primitive value'')"

subsection \<open>Strings\<close>

text \<open>\<^verbatim>\<open>s.startsWith(pat)\<close> and \<^verbatim>\<open>s.includes(pat)\<close>.\<close>

fun startsWith :: "string \<Rightarrow> string \<Rightarrow> bool" where
  "startsWith s [] = True"
| "startsWith [] (p # ps) = False"
| "startsWith (c # cs) (p # ps) = (c = p \<and> startsWith cs ps)"

fun includesText :: "string \<Rightarrow> string \<Rightarrow> bool" where
  "includesText [] pat = (pat = [])"
| "includesText (c # cs) pat = (startsWith (c # cs) pat \<or> includesText cs pat)"

subsection \<open>BigInt\<close>

text \<open>
  \<^verbatim>\<open>BigInt(s)\<close> on a string, after the language's StringToBigInt: white space is trimmed,
  the empty string is 0, then either decimal digits with an optional sign or an unsigned
  literal with prefix 0x, 0o or 0b; anything else raises a SyntaxError. The values are
  unbounded integers. Only the white space characters of ASCII are recognised here.
\<close>

definition isStrWhiteSpaceChar :: "char \<Rightarrow> bool" where
  "isStrWhiteSpaceChar c =
     (c = CHR 0x09 \<or> c = CHR 0x0A \<or> c = CHR 0x0B \<or> c = CHR 0x0C \<or> c = CHR 0x0D \<or> c = CHR '' '')"

definition trimString :: "string \<Rightarrow> string" where
  "trimString s = rev (dropWhile isStrWhiteSpaceChar (rev (dropWhile isStrWhiteSpaceChar s)))"

definition digitValue :: "char \<Rightarrow> nat option" where
  "digitValue c =
     map_of [(CHR ''0'', 0), (CHR ''1'', 1), (CHR ''2'', 2), (CHR ''3'', 3), (CHR ''4'', 4),
             (CHR ''5'', 5), (CHR ''6'', 6), (CHR ''7'', 7), (CHR ''8'', 8), (CHR ''9'', 9),
             (CHR ''a'', 10), (CHR ''b'', 11), (CHR ''c'', 12), (CHR ''d'', 13), (CHR ''e'', 14),
             (CHR ''f'', 15), (CHR ''A'', 10), (CHR ''B'', 11), (CHR ''C'', 12), (CHR ''D'', 13),
             (CHR ''E'', 14), (CHR ''F'', 15)] c"

fun parseDigits :: "nat \<Rightarrow> string \<Rightarrow> nat \<Rightarrow> nat option" where
  "parseDigits radix [] acc = Some acc"
| "parseDigits radix (c # cs) acc =
     (case digitValue c of
        None \<Rightarrow> None
      | Some d \<Rightarrow> if d < radix then parseDigits radix cs (acc * radix + d) else None)"

definition parseNumeral :: "nat \<Rightarrow> string \<Rightarrow> int option" where
  "parseNumeral radix ds = (if ds = [] then None else map_option int (parseDigits radix ds 0))"

fun parseIntegerLiteral :: "string \<Rightarrow> int option" where
  "parseIntegerLiteral [] = Some 0"
| "parseIntegerLiteral [c] = parseNumeral 10 [c]"
| "parseIntegerLiteral (c # d # ds) =
     (if c = CHR ''+'' then parseNumeral 10 (d # ds)
      else if c = CHR ''-'' then map_option uminus (parseNumeral 10 (d # ds))
      else if c = CHR ''0'' \<and> (d = CHR ''x'' \<or> d = CHR ''X'') then parseNumeral 16 ds
      else if c = CHR ''0'' \<and> (d = CHR ''o'' \<or> d = CHR ''O'') then parseNumeral 8 ds
      else if c = CHR ''0'' \<and> (d = CHR ''b'' \<or> d = CHR ''B'') then parseNumeral 2 ds
      else parseNumeral 10 (c # d # ds))"

definition BigInt :: "string \<Rightarrow> thrown + int" where
  "BigInt s =
     (case parseIntegerLiteral (trimString s) of
        None \<Rightarrow> Inl (JsError (''Cannot convert '' @ s @ '' to a BigInt''))
      | Some n \<Rightarrow> Inr n)"

subsection \<open>Data model\<close>

record payment_accepted =
  accepted_scheme :: string
  accepted_network :: string

text \<open>\<^verbatim>\<open>ExactSuiPayload\<close> (types.ts): both fields are strings.\<close>

record exact_sui_payload =
  signature :: string
  transaction :: string

text \<open>
  \<^verbatim>\<open>PaymentPayload\<close>: \<open>payload\<close> is the scheme's body, of unknown shape to the core
  types; \<open>None\<close> is a body that is \<^verbatim>\<open>null\<close> or \<^verbatim>\<open>undefined\<close>.
\<close>

record payment_payload =
  x402Version :: nat
  accepted :: payment_accepted
  payload :: "exact_sui_payload option"

record payment_requirements =
  scheme :: string
  network :: string
  asset :: string
  amount :: string
  payTo :: string
  maxTimeoutSeconds :: nat

text \<open>The owner of a balance change, \<^verbatim>\<open>ObjectOwner\<close> of the Sui SDK; \<^verbatim>\<open>Immutable\<close> is a plain string there.\<close>

datatype object_owner =
    AddressOwner string
  | ObjectOwner string
  | Shared string
  | Immutable

record balance_change =
  owner :: object_owner
  coinType :: string
  bc_amount :: string

record execution_status =
  status :: string
  error :: "string option"

record transaction_effects =
  effects_status :: "execution_status option"

record dry_run_response =
  effects :: "transaction_effects option"
  balanceChanges :: "balance_change list option"

record verify_response =
  isValid :: bool
  invalidReason :: "string option"
  invalidMessage :: "string option"
  payer :: "string option"

record settle_response =
  success :: bool
  settle_network :: string
  settle_transaction :: string
  errorReason :: "string option"
  errorMessage :: "string option"
  settle_payer :: "string option"

subsection \<open>The facilitator signer and the world it acts on\<close>

text \<open>
  A settled promise of one of the two calls that \<open>verify\<close> starts together: what it
  settled with, and the tick at which it settled.
\<close>

type_synonym 'a settled = "(thrown + 'a) \<times> nat"

text \<open>
  \<^verbatim>\<open>FacilitatorSuiSigner\<close> over a chain state \<open>'c\<close>. Its methods return promises, so a
  method that fails is a promise that rejects (\<open>Inl\<close>). Signature recovery and the dry
  run read the chain; executing and waiting return the chain they leave behind, also
  when they raise.
\<close>

record 'c facilitator_signer =
  getAddresses :: "string list"
  verifySignature :: "'c \<Rightarrow> string \<Rightarrow> string \<Rightarrow> string \<Rightarrow> string settled"
  simulateTransaction :: "'c \<Rightarrow> string \<Rightarrow> string \<Rightarrow> dry_run_response settled"
  executeTransaction :: "'c \<Rightarrow> string \<Rightarrow> string \<Rightarrow> string \<Rightarrow> (thrown + string) \<times> 'c"
  waitForTransaction :: "'c \<Rightarrow> string \<Rightarrow> string \<Rightarrow> (thrown + unit) \<times> 'c"

datatype signer_call =
    VerifySignatureCall string string string
  | SimulateTransactionCall string string
  | ExecuteTransactionCall string string string
  | WaitForTransactionCall string string

record 'c world =
  chain :: 'c
  calls :: "signer_call list"

definition called :: "signer_call \<Rightarrow> 'c world \<Rightarrow> 'c world" where
  "called call w = w\<lparr>calls := calls w @ [call]\<rparr>"

fun isExecuteCall :: "signer_call \<Rightarrow> bool" where
  "isExecuteCall (ExecuteTransactionCall tx sg net) = True"
| "isExecuteCall other = False"

text \<open>
  \<^verbatim>\<open>await Promise.all([p, q])\<close>: the pair of the values when both fulfil; otherwise it
  rejects with the reason of the promise that rejected first, and with \<open>p\<close>'s when both
  reject at the same tick (the promises are subscribed to in index order).
\<close>

fun promiseAll :: "'a settled \<Rightarrow> 'b settled \<Rightarrow> thrown + ('a \<times> 'b)" where
  "promiseAll (Inr a, ta) (Inr b, tb) = Inr (a, b)"
| "promiseAll (Inl ea, ta) (Inr b, tb) = Inl ea"
| "promiseAll (Inr a, ta) (Inl eb, tb) = Inl eb"
| "promiseAll (Inl ea, ta) (Inl eb, tb) = (if tb < ta then Inl eb else Inl ea)"

subsection \<open>coinTypesEqual and extractAddress\<close>

text \<open>
  \<^verbatim>\<open>normalizeStructTag\<close> belongs to the Sui SDK, not to this repository: it is the parameter
  \<open>nst\<close>, a function that returns the normalized tag or raises.
  \<^verbatim>\<open>coinTypesEqual(a, b)\<close> normalizes \<open>a\<close>, then \<open>b\<close>, and compares with \<^verbatim>\<open>===\<close>.
\<close>

definition coinTypesEqual :: "(string \<Rightarrow> thrown + string) \<Rightarrow> string \<Rightarrow> string \<Rightarrow> thrown + bool" where
  "coinTypesEqual nst a b =
     (case nst a of
        Inl e \<Rightarrow> Inl e
      | Inr na \<Rightarrow> (case nst b of Inl e \<Rightarrow> Inl e | Inr nb \<Rightarrow> Inr (na = nb)))"

fun extractAddress :: "object_owner \<Rightarrow> string" where
  "extractAddress (AddressOwner a) = a"
| "extractAddress (ObjectOwner a) = []"
| "extractAddress (Shared v) = []"
| "extractAddress Immutable = []"

subsection \<open>verify\<close>

text \<open>
  The first \<^verbatim>\<open>balanceChanges.find\<close>: the first change whose extracted address is
  \<^verbatim>\<open>requirements.payTo\<close> and whose coin type equals the asset. \<^verbatim>\<open>&&\<close> evaluates
  \<open>coinTypesEqual\<close> only for a change that passed the address test; what it raises leaves
  the loop.
\<close>

fun findRecipientChange ::
  "(string \<Rightarrow> thrown + string) \<Rightarrow> payment_requirements \<Rightarrow> balance_change list \<Rightarrow>
     thrown + balance_change option" where
  "findRecipientChange nst requirements [] = Inr None"
| "findRecipientChange nst requirements (bc # rest) =
     (if extractAddress (owner bc) = payTo requirements then
        (case coinTypesEqual nst (coinType bc) (asset requirements) of
           Inl e \<Rightarrow> Inl e
         | Inr True \<Rightarrow> Inr (Some bc)
         | Inr False \<Rightarrow> findRecipientChange nst requirements rest)
      else findRecipientChange nst requirements rest)"

text \<open>The second \<^verbatim>\<open>find\<close>: any change whose extracted address is \<^verbatim>\<open>requirements.payTo\<close>.\<close>

definition findAnyRecipientChange :: "payment_requirements \<Rightarrow> balance_change list \<Rightarrow> balance_change option" where
  "findAnyRecipientChange requirements changes =
     find (\<lambda>bc. extractAddress (owner bc) = payTo requirements) changes"

text \<open>\<^verbatim>\<open>dryRunResult.effects?.status?.status\<close> and \<^verbatim>\<open>dryRunResult.effects?.status?.error\<close>.\<close>

definition dryRunStatus :: "dry_run_response \<Rightarrow> string option" where
  "dryRunStatus r =
     (case effects r of
        None \<Rightarrow> None
      | Some e \<Rightarrow> (case effects_status e of None \<Rightarrow> None | Some s \<Rightarrow> Some (status s)))"

definition dryRunError :: "dry_run_response \<Rightarrow> string option" where
  "dryRunError r =
     (case effects r of
        None \<Rightarrow> None
      | Some e \<Rightarrow> (case effects_status e of None \<Rightarrow> None | Some s \<Rightarrow> error s))"

text \<open>\<^verbatim>\<open>dryRunResult.balanceChanges ?? []\<close>.\<close>

definition dryRunChanges :: "dry_run_response \<Rightarrow> balance_change list" where
  "dryRunChanges r = (case balanceChanges r of None \<Rightarrow> [] | Some bcs \<Rightarrow> bcs)"

text \<open>\<^verbatim>\<open>x || "Simulation failed"\<close>: the default replaces an undefined and an empty text.\<close>

definition orSimulationFailed :: "string option \<Rightarrow> string" where
  "orSimulationFailed x =
     (case x of None \<Rightarrow> ''Simulation failed'' | Some m \<Rightarrow> if m = [] then ''Simulation failed'' else m)"

definition invalid :: "string \<Rightarrow> string option \<Rightarrow> string option \<Rightarrow> verify_response" where
  "invalid reason message who =
     \<lparr>isValid = False, invalidReason = Some reason, invalidMessage = message, payer = who\<rparr>"

text \<open>
  What follows \<^verbatim>\<open>await Promise.all\<close> inside the try block, with the final return of a
  valid response: \<open>Inl\<close> is an exception raised in the block.
\<close>

definition checkSimulation ::
  "(string \<Rightarrow> thrown + string) \<Rightarrow> payment_requirements \<Rightarrow> string \<Rightarrow> dry_run_response \<Rightarrow>
     thrown + verify_response" where
  "checkSimulation nst requirements recoveredPayer dryRunResult =
     (if dryRunStatus dryRunResult = Some ''success'' then
        (let changes = dryRunChanges dryRunResult in
         case findRecipientChange nst requirements changes of
           Inl e \<Rightarrow> Inl e
         | Inr None \<Rightarrow>
             (case findAnyRecipientChange requirements changes of
                Some anyRecipientChange \<Rightarrow>
                  Inr (invalid ''invalid_exact_sui_payload_asset_mismatch'' None (Some recoveredPayer))
              | None \<Rightarrow>
                  Inr (invalid ''invalid_exact_sui_payload_recipient_mismatch'' None (Some recoveredPayer)))
         | Inr (Some recipientChange) \<Rightarrow>
             (case BigInt (bc_amount recipientChange) of
                Inl e \<Rightarrow> Inl e
              | Inr receivedAmount \<Rightarrow>
                  (case BigInt (amount requirements) of
                     Inl e \<Rightarrow> Inl e
                   | Inr required \<Rightarrow>
                       if receivedAmount < required then
                         Inr (invalid ''invalid_exact_sui_payload_amount_insufficient'' None
                                (Some recoveredPayer))
                       else
                         Inr \<lparr>isValid = True, invalidReason = None, invalidMessage = None,
                              payer = Some recoveredPayer\<rparr>)))
      else
        Inr (invalid ''invalid_exact_sui_payload_transaction_dry_run_failed''
               (Some (orSimulationFailed (dryRunError dryRunResult))) (Some recoveredPayer)))"

text \<open>The try block: both signer calls are started, then awaited together.\<close>

definition verifyTry ::
  "(string \<Rightarrow> thrown + string) \<Rightarrow> 'c facilitator_signer \<Rightarrow> 'c \<Rightarrow> exact_sui_payload \<Rightarrow>
     payment_requirements \<Rightarrow> thrown + verify_response" where
  "verifyTry nst signer c suiPayload requirements =
     (case promiseAll
             (verifySignature signer c (transaction suiPayload) (signature suiPayload)
                (network requirements))
             (simulateTransaction signer c (transaction suiPayload) (network requirements)) of
        Inl e \<Rightarrow> Inl e
      | Inr (recoveredPayer, dryRunResult) \<Rightarrow>
          checkSimulation nst requirements recoveredPayer dryRunResult)"

text \<open>The test of the catch block of \<open>verify\<close> on the text of the error.\<close>

definition mentionsSignature :: "string \<Rightarrow> bool" where
  "mentionsSignature message =
     (includesText message ''Signature verification failed'' \<or>
      includesText message ''Invalid signature'')"

text \<open>
  The catch block of \<open>verify\<close>. Its first statement computes the text of the error;
  what that raises leaves the block, and so the method.
\<close>

definition verifyCatch :: "thrown \<Rightarrow> thrown + verify_response" where
  "verifyCatch e =
     (case errorText e of
        Inl raised \<Rightarrow> Inl raised
      | Inr message \<Rightarrow>
          if mentionsSignature message
          then Inr (invalid ''invalid_exact_sui_payload_transaction_signature_verification_failed''
                      (Some message) None)
          else Inr (invalid ''transaction_simulation_failed'' (Some message) None))"

text \<open>
  \<open>verify\<close>: the response, or the exception that leaves the method (\<open>Inl\<close>), and the
  world after it. Each \<^verbatim>\<open>||\<close> of the checks before the try block is written as its two
  tests in order. The two signer calls are recorded in the order they are started.
\<close>

definition verify ::
  "(string \<Rightarrow> thrown + string) \<Rightarrow> 'c facilitator_signer \<Rightarrow> 'c world \<Rightarrow> payment_payload \<Rightarrow>
     payment_requirements \<Rightarrow> (thrown + verify_response) \<times> 'c world" where
  "verify nst signer w p requirements =
     (if accepted_scheme (accepted p) \<noteq> ''exact'' then
        (Inr (invalid ''unsupported_scheme'' None None), w)
      else if scheme requirements \<noteq> ''exact'' then
        (Inr (invalid ''unsupported_scheme'' None None), w)
      else if accepted_network (accepted p) \<noteq> network requirements then
        (Inr (invalid ''network_mismatch'' None None), w)
      else
        (case payload p of
           None \<Rightarrow>
             (Inr (invalid ''invalid_exact_sui_payload_transaction_could_not_be_decoded'' None None), w)
         | Some suiPayload \<Rightarrow>
             if transaction suiPayload = [] then
               (Inr (invalid ''invalid_exact_sui_payload_transaction_could_not_be_decoded'' None None), w)
             else if signature suiPayload = [] then
               (Inr (invalid ''invalid_exact_sui_payload_transaction_could_not_be_decoded'' None None), w)
             else
               (let w' = called (SimulateTransactionCall (transaction suiPayload) (network requirements))
                           (called (VerifySignatureCall (transaction suiPayload)
                                      (signature suiPayload) (network requirements)) w)
                in case verifyTry nst signer (chain w) suiPayload requirements of
                     Inl e \<Rightarrow> (verifyCatch e, w')
                   | Inr response \<Rightarrow> (Inr response, w'))))"

subsection \<open>settle\<close>

text \<open>
  The try block of \<open>settle\<close>: execute, then wait for finality. Reading a field of an
  undefined body raises a TypeError inside the block.
\<close>

definition settleTry ::
  "'c facilitator_signer \<Rightarrow> 'c world \<Rightarrow> payment_payload \<Rightarrow> payment_requirements \<Rightarrow>
     verify_response \<Rightarrow> (thrown + settle_response) \<times> 'c world" where
  "settleTry signer w p requirements verification =
     (case payload p of
        None \<Rightarrow>
          (Inl (JsError ''Cannot read properties of undefined (reading 'transaction')''), w)
      | Some suiPayload \<Rightarrow>
          (let w1 = called (ExecuteTransactionCall (transaction suiPayload) (signature suiPayload)
                              (network requirements)) w
           in case executeTransaction signer (chain w1) (transaction suiPayload)
                     (signature suiPayload) (network requirements) of
                (Inl e, c1) \<Rightarrow> (Inl e, w1\<lparr>chain := c1\<rparr>)
              | (Inr digest, c1) \<Rightarrow>
                  (let w2 = called (WaitForTransactionCall digest (network requirements))
                              (w1\<lparr>chain := c1\<rparr>)
                   in case waitForTransaction signer (chain w2) digest (network requirements) of
                        (Inl e, c2) \<Rightarrow> (Inl e, w2\<lparr>chain := c2\<rparr>)
                      | (Inr u, c2) \<Rightarrow>
                          (Inr \<lparr>success = True, settle_network = accepted_network (accepted p),
                                settle_transaction = digest, errorReason = None,
                                errorMessage = None, settle_payer = payer verification\<rparr>,
                           w2\<lparr>chain := c2\<rparr>))))"

definition settle ::
  "(string \<Rightarrow> thrown + string) \<Rightarrow> 'c facilitator_signer \<Rightarrow> 'c world \<Rightarrow> payment_payload \<Rightarrow>
     payment_requirements \<Rightarrow> (thrown + settle_response) \<times> 'c world" where
  "settle nst signer w p requirements =
     (case verify nst signer w p requirements of
        (Inl e, w1) \<Rightarrow> (Inl e, w1)
      | (Inr verification, w1) \<Rightarrow>
          if isValid verification then
            (case settleTry signer w1 p requirements verification of
               (Inl e, w2) \<Rightarrow>
                 (case errorText e of
                    Inl raised \<Rightarrow> (Inl raised, w2)
                  | Inr message \<Rightarrow>
                      (Inr \<lparr>success = False, settle_network = accepted_network (accepted p),
                            settle_transaction = [], errorReason = Some ''transaction_failed'',
                            errorMessage = Some message, settle_payer = payer verification\<rparr>, w2))
             | (Inr response, w2) \<Rightarrow> (Inr response, w2))
          else
            (Inr \<lparr>success = False, settle_network = accepted_network (accepted p),
                  settle_transaction = [],
                  errorReason = Some (case invalidReason verification of
                                        None \<Rightarrow> ''verification_failed''
                                      | Some reason \<Rightarrow> reason),
                  errorMessage = None, settle_payer = payer verification\<rparr>, w1))"

subsection \<open>Notions the statements use\<close>

text \<open>
  The three checks before the try block let a payload through: both schemes are
  \<^verbatim>\<open>"exact"\<close>, the networks agree, and the body \<open>suiPayload\<close> has a non-empty
  transaction and a non-empty signature.
\<close>

definition preChecksPass :: "payment_payload \<Rightarrow> payment_requirements \<Rightarrow> exact_sui_payload \<Rightarrow> bool" where
  "preChecksPass p requirements suiPayload =
     (accepted_scheme (accepted p) = ''exact'' \<and> scheme requirements = ''exact'' \<and>
      accepted_network (accepted p) = network requirements \<and>
      payload p = Some suiPayload \<and>
      transaction suiPayload \<noteq> [] \<and> signature suiPayload \<noteq> [])"

text \<open>The reasons \<open>verify\<close> writes into \<open>invalidReason\<close>, in the order of the source.\<close>

definition invalidReasons :: "string list" where
  "invalidReasons =
     [''unsupported_scheme'', ''network_mismatch'',
      ''invalid_exact_sui_payload_transaction_could_not_be_decoded'',
      ''invalid_exact_sui_payload_transaction_dry_run_failed'',
      ''invalid_exact_sui_payload_asset_mismatch'',
      ''invalid_exact_sui_payload_recipient_mismatch'',
      ''invalid_exact_sui_payload_amount_insufficient'',
      ''invalid_exact_sui_payload_transaction_signature_verification_failed'',
      ''transaction_simulation_failed'']"



subsection \<open>Constants and the fixtures of the unit tests\<close>

text \<open>From \<^verbatim>\<open>constants.ts\<close>.\<close>

definition USDC_MAINNET :: string where
  "USDC_MAINNET = ''0xdba34672e30cb065b1f93e3ab55318768fd6fef66c15942c9f7cb846e2f900e7::usdc::USDC''"

definition SUI_COIN_TYPE :: string where
  "SUI_COIN_TYPE = ''0x2::sui::SUI''"

definition SUI_MAINNET_CAIP2 :: string where
  "SUI_MAINNET_CAIP2 = ''sui:mainnet''"

text \<open>
  The helpers of the unit tests (\<^verbatim>\<open>createMockPayload\<close>, \<^verbatim>\<open>createMockRequirements\<close>,
  \<^verbatim>\<open>createSuccessfulDryRun\<close>, \<^verbatim>\<open>createFailedDryRun\<close>, \<^verbatim>\<open>createMockFacilitatorSigner\<close>),
  with shorter addresses. The mock chain is the list of the transactions executed on it.
\<close>

definition MOCK_PAYER :: string where
  "MOCK_PAYER = ''0xbbbb''"

definition MOCK_PAYTO :: string where
  "MOCK_PAYTO = ''0xcccc''"

definition MOCK_FACILITATOR :: string where
  "MOCK_FACILITATOR = ''0xaaaa''"

definition createMockPayload :: payment_payload where
  "createMockPayload =
     \<lparr>x402Version = 2,
      accepted = \<lparr>accepted_scheme = ''exact'', accepted_network = SUI_MAINNET_CAIP2\<rparr>,
      payload = Some \<lparr>signature = ''mock-signature-base64'',
                      transaction = ''mock-transaction-base64''\<rparr>\<rparr>"

definition createMockRequirements :: payment_requirements where
  "createMockRequirements =
     \<lparr>scheme = ''exact'', network = SUI_MAINNET_CAIP2, asset = USDC_MAINNET,
      amount = ''100000'', payTo = MOCK_PAYTO, maxTimeoutSeconds = 3600\<rparr>"

definition createSuccessfulDryRun :: "balance_change list \<Rightarrow> dry_run_response" where
  "createSuccessfulDryRun changes =
     \<lparr>effects = Some \<lparr>effects_status = Some \<lparr>status = ''success'', error = None\<rparr>\<rparr>,
      balanceChanges = Some changes\<rparr>"

definition createFailedDryRun :: "string \<Rightarrow> dry_run_response" where
  "createFailedDryRun message =
     \<lparr>effects = Some \<lparr>effects_status = Some \<lparr>status = ''failure'', error = Some message\<rparr>\<rparr>,
      balanceChanges = Some []\<rparr>"

definition createMockFacilitatorSigner :: "balance_change list \<Rightarrow> string list facilitator_signer" where
  "createMockFacilitatorSigner changes =
     \<lparr>getAddresses = [MOCK_FACILITATOR],
      verifySignature = (\<lambda>c tx sg net. (Inr MOCK_PAYER, 1)),
      simulateTransaction = (\<lambda>c tx net. (Inr (createSuccessfulDryRun changes), 2)),
      executeTransaction = (\<lambda>c tx sg net. (Inr ''mock-digest-123'', c @ [tx])),
      waitForTransaction = (\<lambda>c digest net. (Inr (), c))\<rparr>"

text \<open>The balance changes of the tests: one change, owned by \<open>who\<close>, in \<open>coin\<close>.\<close>

definition oneChange :: "object_owner \<Rightarrow> string \<Rightarrow> string \<Rightarrow> balance_change list" where
  "oneChange who coin delta = [\<lparr>owner = who, coinType = coin, bc_amount = delta\<rparr>]"

definition emptyWorld :: "string list world" where
  "emptyWorld = \<lparr>chain = [], calls = []\<rparr>"

text \<open>
  A stand-in for \<^verbatim>\<open>normalizeStructTag\<close> in the examples: it raises on a text without
  \<^verbatim>\<open>::\<close>, pads the address of \<^verbatim>\<open>0x2::sui::SUI\<close> as the unit test of
  \<open>coinTypesEqual\<close> expects, and leaves every other tag alone.
\<close>

definition sampleNormalizeStructTag :: "string \<Rightarrow> thrown + string" where
  "sampleNormalizeStructTag s =
     (if includesText s ''::'' then
        (if s = ''0x2::sui::SUI''
         then Inr ''0x0000000000000000000000000000000000000000000000000000000000000002::sui::SUI''
         else Inr s)
      else Inl (JsError ''Cannot read properties of undefined (reading 'length')''))"

section \<open>Properties\<close>

subsection \<open>Shape of the two methods\<close>


lemma verify_world:
  "verify nst signer w p requirements = (r, w1) \<Longrightarrow>
     chain w1 = chain w \<and> (\<exists>cs. calls w1 = calls w @ cs \<and> filter isExecuteCall cs = [])"
  by (auto simp: verify_def called_def Let_def split: if_splits option.splits sum.splits)

lemma verify_preChecks:
  assumes "preChecksPass p requirements suiPayload"
  shows "verify nst signer w p requirements =
           (case verifyTry nst signer (chain w) suiPayload requirements of
              Inl e \<Rightarrow> verifyCatch e
            | Inr response \<Rightarrow> Inr response,
            called (SimulateTransactionCall (transaction suiPayload) (network requirements))
              (called (VerifySignatureCall (transaction suiPayload) (signature suiPayload)
                         (network requirements)) w))"
  using assms by (simp add: preChecksPass_def verify_def Let_def split: sum.splits)

lemma verifyCatch_text:
  "errorText e = Inr message \<Longrightarrow>
     verifyCatch e =
       Inr (invalid (if mentionsSignature message
                     then ''invalid_exact_sui_payload_transaction_signature_verification_failed''
                     else ''transaction_simulation_failed'')
              (Some message) None)"
  by (simp add: verifyCatch_def)

lemma verifyCatch_response:
  assumes "verifyCatch e = Inr v"
  shows "\<exists>message. errorText e = Inr message \<and>
           v = invalid (if mentionsSignature message
                        then ''invalid_exact_sui_payload_transaction_signature_verification_failed''
                        else ''transaction_simulation_failed'')
                 (Some message) None"
  using assms by (auto simp: verifyCatch_def split: sum.splits if_splits)

text \<open>
  A response of \<open>verify\<close> after the pre-checks is either written by the catch block,
  from an error with a text, or the result of the try block.
\<close>

lemma verify_response_cases:
  assumes pre: "preChecksPass p requirements suiPayload"
      and v: "fst (verify nst signer w p requirements) = Inr v"
  shows "(\<exists>e message. verifyTry nst signer (chain w) suiPayload requirements = Inl e \<and>
            errorText e = Inr message \<and>
            v = invalid (if mentionsSignature message
                         then ''invalid_exact_sui_payload_transaction_signature_verification_failed''
                         else ''transaction_simulation_failed'')
                  (Some message) None) \<or>
         verifyTry nst signer (chain w) suiPayload requirements = Inr v"
proof (cases "verifyTry nst signer (chain w) suiPayload requirements")
  case (Inl e)
  with verify_preChecks[OF pre, of nst signer w] v have "verifyCatch e = Inr v" by simp
  from verifyCatch_response[OF this] Inl show ?thesis by blast
next
  case (Inr r)
  with verify_preChecks[OF pre, of nst signer w] v show ?thesis by simp
qed

lemma verifyTry_checkSimulation:
  assumes "verifyTry nst signer c suiPayload requirements = Inr v"
  shows "\<exists>who d. checkSimulation nst requirements who d = Inr v"
  using assms by (auto simp: verifyTry_def split: sum.splits prod.splits)

lemma checkSimulation_cases:
  assumes "checkSimulation nst requirements who d = Inr v"
  shows "payer v = Some who \<and>
         (if isValid v then invalidReason v = None
          else invalidReason v \<in> Some ` set [''invalid_exact_sui_payload_transaction_dry_run_failed'',
                 ''invalid_exact_sui_payload_asset_mismatch'',
                 ''invalid_exact_sui_payload_recipient_mismatch'',
                 ''invalid_exact_sui_payload_amount_insufficient''])"
  using assms
  by (auto simp: checkSimulation_def invalid_def Let_def split: if_splits option.splits sum.splits bool.splits)

lemma verify_valid_preChecks:
  assumes "verify nst signer w p requirements = (Inr v, w1)" and "isValid v"
  shows "\<exists>suiPayload. preChecksPass p requirements suiPayload"
  using assms
  by (auto simp: verify_def preChecksPass_def invalid_def Let_def split: if_splits option.splits)

lemma verifyTry_sig_ok:
  assumes "verifyTry nst signer c suiPayload requirements = Inr v"
  shows "\<exists>who t. verifySignature signer c (transaction suiPayload) (signature suiPayload)
                   (network requirements) = (Inr who, t) \<and> payer v = Some who"
proof -
  obtain rs ts where s: "verifySignature signer c (transaction suiPayload) (signature suiPayload)
                   (network requirements) = (rs, ts)" by force
  obtain rd td where d: "simulateTransaction signer c (transaction suiPayload) (network requirements) = (rd, td)" by force
  show ?thesis
  proof (cases rs)
    case (Inl e) with assms s d show ?thesis
      by (cases rd) (auto simp: verifyTry_def split: if_splits)
  next
    case (Inr who)
    show ?thesis
    proof (cases rd)
      case (Inl e) with assms s d Inr show ?thesis by (auto simp: verifyTry_def)
    next
      case (Inr dr)
      with assms s d \<open>rs = Inr who\<close> have "checkSimulation nst requirements who dr = Inr v"
        by (simp add: verifyTry_def)
      from checkSimulation_cases[OF this] s \<open>rs = Inr who\<close> show ?thesis by simp
    qed
  qed
qed

text \<open>The definitions to unfold when a method is run on a fixture.\<close>

lemmas fixture_defs = createMockPayload_def createMockRequirements_def createSuccessfulDryRun_def
  createFailedDryRun_def createMockFacilitatorSigner_def emptyWorld_def oneChange_def
  SUI_MAINNET_CAIP2_def MOCK_PAYER_def MOCK_PAYTO_def MOCK_FACILITATOR_def

lemmas verify_defs = verify_def verifyTry_def verifyCatch_def mentionsSignature_def
  checkSimulation_def invalid_def
  called_def dryRunStatus_def dryRunError_def dryRunChanges_def orSimulationFailed_def
  findAnyRecipientChange_def coinTypesEqual_def

text \<open>
  When a method returns a response, a response that is not valid (not successful)
  carries a reason, one of the source's tags.
\<close>

lemma verify_response_tagged:
  assumes "verify nst signer w p requirements = (Inr v, w1)"
  shows "if isValid v then invalidReason v = None else invalidReason v \<in> Some ` set invalidReasons"
proof (cases "\<exists>suiPayload. preChecksPass p requirements suiPayload")
  case False
  with assms show ?thesis
    by (auto simp: verify_def preChecksPass_def invalid_def invalidReasons_def Let_def
             split: if_splits option.splits)
next
  case True
  then obtain suiPayload where pre: "preChecksPass p requirements suiPayload" by blast
  from assms have "fst (verify nst signer w p requirements) = Inr v" by simp
  from verify_response_cases[OF pre this] show ?thesis
  proof
    assume "\<exists>e message. verifyTry nst signer (chain w) suiPayload requirements = Inl e \<and>
            errorText e = Inr message \<and>
            v = invalid (if mentionsSignature message
                         then ''invalid_exact_sui_payload_transaction_signature_verification_failed''
                         else ''transaction_simulation_failed'')
                  (Some message) None"
    then show ?thesis by (auto simp: invalid_def invalidReasons_def split: if_splits)
  next
    assume "verifyTry nst signer (chain w) suiPayload requirements = Inr v"
    from verifyTry_checkSimulation[OF this]
    obtain who d where "checkSimulation nst requirements who d = Inr v" by blast
    from checkSimulation_cases[OF this] show ?thesis
      by (auto simp: invalidReasons_def split: if_splits)
  qed
qed

lemma settle_response_tagged:
  assumes "settle nst signer w p requirements = (Inr s, w2)"
  shows "if success s then errorReason s = None
         else errorReason s \<in> Some ` set (''transaction_failed'' # invalidReasons)"
proof -
  from assms obtain v w1 where v: "verify nst signer w p requirements = (Inr v, w1)"
    by (auto simp: settle_def split: prod.splits sum.splits)
  show ?thesis
  proof (cases "isValid v")
    case False
    with v verify_response_tagged[OF v] assms show ?thesis by (auto simp: settle_def)
  next
    case True
    with v assms show ?thesis
      by (auto simp: settle_def settleTry_def Let_def
               split: prod.splits sum.splits option.splits)
  qed
qed

text \<open>
  An exception leaves \<open>verify\<close> only from its catch block: the try block raised an
  error whose text cannot be computed.
\<close>

lemma verify_rejects_only_in_catch:
  assumes "fst (verify nst signer w p requirements) = Inl x"
  shows "\<exists>suiPayload e. preChecksPass p requirements suiPayload \<and>
           verifyTry nst signer (chain w) suiPayload requirements = Inl e \<and>
           errorText e = Inl x"
  using assms
  by (auto simp: verify_def verifyCatch_def preChecksPass_def Let_def
           split: if_splits option.splits sum.splits)

text \<open>
  C9 at a signer whose promise rejects with a value that has no conversion to a
  string (\<^verbatim>\<open>Object.create(null)\<close>): the catch block of \<open>verify\<close> raises a TypeError
  while it computes the text of the error, so \<open>verify\<close> returns no response, and
  \<open>settle\<close>, which awaits \<open>verify\<close> outside its try block, returns none either. The
  catch block of \<open>settle\<close> does the same when \<open>executeTransaction\<close> rejects with such a
  value after a valid verification.
\<close>

theorem rejection_without_text_leaves_verify_and_settle:
  "fst (verify sampleNormalizeStructTag
          ((createMockFacilitatorSigner [])\<lparr>verifySignature :=
              (\<lambda>c tx sg net. (Inl JsUnprintable, 1))\<rparr>)
          emptyWorld createMockPayload createMockRequirements) =
     Inl (JsError ''Cannot convert object to primitive value'') \<and>
   fst (settle sampleNormalizeStructTag
          ((createMockFacilitatorSigner [])\<lparr>verifySignature :=
              (\<lambda>c tx sg net. (Inl JsUnprintable, 1))\<rparr>)
          emptyWorld createMockPayload createMockRequirements) =
     Inl (JsError ''Cannot convert object to primitive value'') \<and>
   fst (settle sampleNormalizeStructTag
          ((createMockFacilitatorSigner (oneChange (AddressOwner MOCK_PAYTO) USDC_MAINNET ''100000''))
             \<lparr>executeTransaction := (\<lambda>c tx sg net. (Inl JsUnprintable, c))\<rparr>)
          emptyWorld createMockPayload createMockRequirements) =
     Inl (JsError ''Cannot convert object to primitive value'')"
proof -
  have r: "verify sampleNormalizeStructTag
          ((createMockFacilitatorSigner [])\<lparr>verifySignature :=
              (\<lambda>c tx sg net. (Inl JsUnprintable, 1))\<rparr>)
          emptyWorld createMockPayload createMockRequirements =
     (Inl (JsError ''Cannot convert object to primitive value''),
      \<lparr>chain = [], calls = [VerifySignatureCall ''mock-transaction-base64'' ''mock-signature-base64'' ''sui:mainnet'',
                            SimulateTransactionCall ''mock-transaction-base64'' ''sui:mainnet'']\<rparr>)"
    by (simp add: verify_defs fixture_defs)
  then have a: "fst (verify sampleNormalizeStructTag
          ((createMockFacilitatorSigner [])\<lparr>verifySignature :=
              (\<lambda>c tx sg net. (Inl JsUnprintable, 1))\<rparr>)
          emptyWorld createMockPayload createMockRequirements) =
     Inl (JsError ''Cannot convert object to primitive value'')"
    by simp
  have b: "fst (settle sampleNormalizeStructTag
          ((createMockFacilitatorSigner [])\<lparr>verifySignature :=
              (\<lambda>c tx sg net. (Inl JsUnprintable, 1))\<rparr>)
          emptyWorld createMockPayload createMockRequirements) =
     Inl (JsError ''Cannot convert object to primitive value'')"
    unfolding settle_def r by simp
  have v: "verify sampleNormalizeStructTag
          ((createMockFacilitatorSigner (oneChange (AddressOwner MOCK_PAYTO) USDC_MAINNET ''100000''))
             \<lparr>executeTransaction := (\<lambda>c tx sg net. (Inl JsUnprintable, c))\<rparr>)
          emptyWorld createMockPayload createMockRequirements =
     (Inr \<lparr>isValid = True, invalidReason = None, invalidMessage = None, payer = Some MOCK_PAYER\<rparr>,
      \<lparr>chain = [], calls = [VerifySignatureCall ''mock-transaction-base64'' ''mock-signature-base64'' ''sui:mainnet'',
                            SimulateTransactionCall ''mock-transaction-base64'' ''sui:mainnet'']\<rparr>)"
    by (simp add: verify_defs fixture_defs sampleNormalizeStructTag_def USDC_MAINNET_def BigInt_def
         trimString_def isStrWhiteSpaceChar_def parseNumeral_def digitValue_def)
  have c: "fst (settle sampleNormalizeStructTag
          ((createMockFacilitatorSigner (oneChange (AddressOwner MOCK_PAYTO) USDC_MAINNET ''100000''))
             \<lparr>executeTransaction := (\<lambda>c tx sg net. (Inl JsUnprintable, c))\<rparr>)
          emptyWorld createMockPayload createMockRequirements) =
     Inl (JsError ''Cannot convert object to primitive value'')"
    by (simp add: settle_def v) (simp add: settleTry_def called_def Let_def fixture_defs)
  from a b c show ?thesis by simp
qed

subsection \<open>Settlement\<close>

text \<open>
  C1. Whenever the verification that \<open>settle\<close> runs first is not valid, \<open>settle\<close>
  answers \<open>success = False\<close> with an empty transaction, the reason of that verification
  (\<^verbatim>\<open>verification_failed\<close> if it had none) and its payer, and the world it leaves is the
  one the verification left: the chain is unchanged and no call of
  \<open>executeTransaction\<close> was made.
\<close>

theorem settle_refuses_when_verify_fails:
  assumes "verify nst signer w p requirements = (Inr verification, w1)"
      and "\<not> isValid verification"
  shows "settle nst signer w p requirements =
           (Inr \<lparr>success = False, settle_network = accepted_network (accepted p),
                 settle_transaction = [],
                 errorReason = Some (case invalidReason verification of
                                       None \<Rightarrow> ''verification_failed''
                                     | Some reason \<Rightarrow> reason),
                 errorMessage = None, settle_payer = payer verification\<rparr>, w1)
         \<and> chain w1 = chain w
         \<and> (\<exists>cs. calls w1 = calls w @ cs \<and> filter isExecuteCall cs = [])"
proof -
  have "settle nst signer w p requirements =
           (Inr \<lparr>success = False, settle_network = accepted_network (accepted p),
                 settle_transaction = [],
                 errorReason = Some (case invalidReason verification of
                                       None \<Rightarrow> ''verification_failed''
                                     | Some reason \<Rightarrow> reason),
                 errorMessage = None, settle_payer = payer verification\<rparr>, w1)"
    using assms by (simp add: settle_def)
  with verify_world[OF assms(1)] show ?thesis by simp
qed

theorem settle_refuses_when_verify_fails_witness:
  "verify sampleNormalizeStructTag
     ((createMockFacilitatorSigner [])\<lparr>verifySignature :=
         (\<lambda>c tx sg net. (Inl (JsError ''Invalid signature''), 1))\<rparr>)
     emptyWorld createMockPayload createMockRequirements =
     (Inr \<lparr>isValid = False,
           invalidReason = Some ''invalid_exact_sui_payload_transaction_signature_verification_failed'',
           invalidMessage = Some ''Invalid signature'', payer = None\<rparr>,
      \<lparr>chain = [], calls = [VerifySignatureCall ''mock-transaction-base64'' ''mock-signature-base64'' ''sui:mainnet'',
                            SimulateTransactionCall ''mock-transaction-base64'' ''sui:mainnet'']\<rparr>)
   \<and> settle sampleNormalizeStructTag
     ((createMockFacilitatorSigner [])\<lparr>verifySignature :=
         (\<lambda>c tx sg net. (Inl (JsError ''Invalid signature''), 1))\<rparr>)
     emptyWorld createMockPayload createMockRequirements =
     (Inr \<lparr>success = False, settle_network = ''sui:mainnet'', settle_transaction = [],
           errorReason = Some ''invalid_exact_sui_payload_transaction_signature_verification_failed'',
           errorMessage = None, settle_payer = None\<rparr>,
      \<lparr>chain = [], calls = [VerifySignatureCall ''mock-transaction-base64'' ''mock-signature-base64'' ''sui:mainnet'',
                            SimulateTransactionCall ''mock-transaction-base64'' ''sui:mainnet'']\<rparr>)"
proof -
  have v: "verify sampleNormalizeStructTag
     ((createMockFacilitatorSigner [])\<lparr>verifySignature :=
         (\<lambda>c tx sg net. (Inl (JsError ''Invalid signature''), 1))\<rparr>)
     emptyWorld createMockPayload createMockRequirements =
     (Inr \<lparr>isValid = False,
           invalidReason = Some ''invalid_exact_sui_payload_transaction_signature_verification_failed'',
           invalidMessage = Some ''Invalid signature'', payer = None\<rparr>,
      \<lparr>chain = [], calls = [VerifySignatureCall ''mock-transaction-base64'' ''mock-signature-base64'' ''sui:mainnet'',
                            SimulateTransactionCall ''mock-transaction-base64'' ''sui:mainnet'']\<rparr>)"
    by (simp add: verify_defs fixture_defs)
  from settle_refuses_when_verify_fails[OF v] v show ?thesis
    by (simp add: fixture_defs)
qed



subsection \<open>Invariants of the responses\<close>

lemma settle_cases:
  assumes "settle nst signer w p requirements = (Inr s, w2)"
  shows "(if success s
          then \<exists>c tx sg net c1. executeTransaction signer c tx sg net = (Inr (settle_transaction s), c1)
          else settle_transaction s = [])"
  using assms
  by (auto simp: settle_def settleTry_def Let_def split: prod.splits sum.splits option.splits if_splits)
     blast+

text \<open>
  C8. For a signer whose signature recovery returns no empty identity and whose
  \<open>executeTransaction\<close> returns no empty digest: a valid response of \<open>verify\<close> has a
  payer that is not empty, a successful response of \<open>settle\<close> has a transaction digest
  that is not empty, and every unsuccessful response of \<open>settle\<close> has the empty
  transaction.
\<close>

theorem results_carry_payer_and_digest:
  assumes recovered: "\<And>c tx sg net who t. verifySignature signer c tx sg net = (Inr who, t) \<Longrightarrow> who \<noteq> []"
      and broadcast: "\<And>c tx sg net digest c1.
                        executeTransaction signer c tx sg net = (Inr digest, c1) \<Longrightarrow> digest \<noteq> []"
      and v: "verify nst signer w p requirements = (Inr v, w1)"
      and s: "settle nst signer w p requirements = (Inr s, w2)"
  shows "(if isValid v then \<exists>who. payer v = Some who \<and> who \<noteq> [] else True) \<and>
         (if success s then settle_transaction s \<noteq> [] else settle_transaction s = [])"
proof -
  have "\<exists>who. payer v = Some who \<and> who \<noteq> []" if valid: "isValid v"
  proof -
    from verify_valid_preChecks[OF v valid] obtain suiPayload
      where pre: "preChecksPass p requirements suiPayload" by blast
    from v have "fst (verify nst signer w p requirements) = Inr v" by simp
    from verify_response_cases[OF pre this] show ?thesis
    proof
      assume "\<exists>e message. verifyTry nst signer (chain w) suiPayload requirements = Inl e \<and>
            errorText e = Inr message \<and>
            v = invalid (if mentionsSignature message
                         then ''invalid_exact_sui_payload_transaction_signature_verification_failed''
                         else ''transaction_simulation_failed'')
                  (Some message) None"
      with valid show ?thesis by (auto simp: invalid_def)
    next
      assume "verifyTry nst signer (chain w) suiPayload requirements = Inr v"
      from verifyTry_sig_ok[OF this] recovered show ?thesis by blast
    qed
  qed
  moreover have "(if success s then settle_transaction s \<noteq> [] else settle_transaction s = [])"
  proof (cases "success s")
    case True
    with settle_cases[OF s] obtain c tx sg net c1
      where "executeTransaction signer c tx sg net = (Inr (settle_transaction s), c1)" by auto
    from broadcast[OF this] True show ?thesis by simp
  next
    case False
    with settle_cases[OF s] show ?thesis by simp
  qed
  ultimately show ?thesis by simp
qed

theorem results_carry_payer_and_digest_witness:
  "fst (verify sampleNormalizeStructTag
     (createMockFacilitatorSigner (oneChange (AddressOwner MOCK_PAYTO) USDC_MAINNET ''100000''))
     emptyWorld createMockPayload createMockRequirements) =
     Inr \<lparr>isValid = True, invalidReason = None, invalidMessage = None, payer = Some MOCK_PAYER\<rparr> \<and>
   MOCK_PAYER \<noteq> [] \<and>
   settle sampleNormalizeStructTag
     (createMockFacilitatorSigner (oneChange (AddressOwner MOCK_PAYTO) USDC_MAINNET ''100000''))
     emptyWorld createMockPayload createMockRequirements =
     (Inr \<lparr>success = True, settle_network = SUI_MAINNET_CAIP2,
           settle_transaction = ''mock-digest-123'', errorReason = None, errorMessage = None,
           settle_payer = Some MOCK_PAYER\<rparr>,
      \<lparr>chain = [''mock-transaction-base64''],
        calls = [VerifySignatureCall ''mock-transaction-base64'' ''mock-signature-base64'' ''sui:mainnet'',
                 SimulateTransactionCall ''mock-transaction-base64'' ''sui:mainnet'',
                 ExecuteTransactionCall ''mock-transaction-base64'' ''mock-signature-base64'' ''sui:mainnet'',
                 WaitForTransactionCall ''mock-digest-123'' ''sui:mainnet'']\<rparr>) \<and>
   ''mock-digest-123'' \<noteq> []"
proof -
  let ?signer = "createMockFacilitatorSigner (oneChange (AddressOwner MOCK_PAYTO) USDC_MAINNET ''100000'')"
  have r: "\<And>c tx sg net who t. verifySignature ?signer c tx sg net = (Inr who, t) \<Longrightarrow> who \<noteq> []"
    by (auto simp: fixture_defs)
  have b: "\<And>c tx sg net digest c1.
             executeTransaction ?signer c tx sg net = (Inr digest, c1) \<Longrightarrow> digest \<noteq> []"
    by (auto simp: fixture_defs)
  have v: "verify sampleNormalizeStructTag ?signer emptyWorld createMockPayload createMockRequirements =
     (Inr \<lparr>isValid = True, invalidReason = None, invalidMessage = None, payer = Some MOCK_PAYER\<rparr>,
      \<lparr>chain = [], calls = [VerifySignatureCall ''mock-transaction-base64'' ''mock-signature-base64'' ''sui:mainnet'',
                            SimulateTransactionCall ''mock-transaction-base64'' ''sui:mainnet'']\<rparr>)"
    by (simp add: verify_defs fixture_defs sampleNormalizeStructTag_def USDC_MAINNET_def BigInt_def
         trimString_def isStrWhiteSpaceChar_def parseNumeral_def digitValue_def)
  have s: "settle sampleNormalizeStructTag ?signer emptyWorld createMockPayload createMockRequirements =
     (Inr \<lparr>success = True, settle_network = SUI_MAINNET_CAIP2,
           settle_transaction = ''mock-digest-123'', errorReason = None, errorMessage = None,
           settle_payer = Some MOCK_PAYER\<rparr>,
      \<lparr>chain = [''mock-transaction-base64''],
        calls = [VerifySignatureCall ''mock-transaction-base64'' ''mock-signature-base64'' ''sui:mainnet'',
                 SimulateTransactionCall ''mock-transaction-base64'' ''sui:mainnet'',
                 ExecuteTransactionCall ''mock-transaction-base64'' ''mock-signature-base64'' ''sui:mainnet'',
                 WaitForTransactionCall ''mock-digest-123'' ''sui:mainnet'']\<rparr>)"
    by (simp add: settle_def v) (simp add: settleTry_def called_def Let_def fixture_defs)
  from results_carry_payer_and_digest[OF r b v s] v s show ?thesis by simp
qed

subsection \<open>The parallel phase and what follows it\<close>

lemma verifyTry_fulfilled:
  assumes "fst (verifySignature signer c (transaction suiPayload) (signature suiPayload)
                  (network requirements)) = Inr who"
      and "fst (simulateTransaction signer c (transaction suiPayload) (network requirements)) = Inr d"
  shows "verifyTry nst signer c suiPayload requirements = checkSimulation nst requirements who d"
proof -
  obtain ts td where
    "verifySignature signer c (transaction suiPayload) (signature suiPayload)
       (network requirements) = (Inr who, ts)"
    "simulateTransaction signer c (transaction suiPayload) (network requirements) = (Inr d, td)"
    using assms by (metis prod.collapse)
  then show ?thesis by (simp add: verifyTry_def)
qed

lemma verifyTry_rejected:
  assumes s: "verifySignature signer c (transaction suiPayload) (signature suiPayload)
                (network requirements) = (rs, ts)"
      and d: "simulateTransaction signer c (transaction suiPayload) (network requirements) = (rd, td)"
      and e: "rs = Inl e \<and> (isl rd \<longrightarrow> ts \<le> td) \<or> rd = Inl e \<and> (isl rs \<longrightarrow> td < ts)"
  shows "verifyTry nst signer c suiPayload requirements = Inl e"
  using e by (cases rs; cases rd) (auto simp: verifyTry_def s d)

text \<open>
  C3. When the pre-checks pass, both signer calls return, the dry run succeeded and the
  first \<^verbatim>\<open>find\<close> returns a change whose amount and the required amount are integer
  texts, \<open>verify\<close> compares the two as unbounded integers: it answers
  \<^verbatim>\<open>amount_insufficient\<close> exactly when the change's delta is below the required amount,
  and a valid response when it is equal or above.
\<close>

theorem amount_threshold:
  assumes pre: "preChecksPass p requirements suiPayload"
      and sig: "fst (verifySignature signer (chain w) (transaction suiPayload) (signature suiPayload)
                       (network requirements)) = Inr who"
      and sim: "fst (simulateTransaction signer (chain w) (transaction suiPayload)
                       (network requirements)) = Inr d"
      and ok: "dryRunStatus d = Some ''success''"
      and found: "findRecipientChange nst requirements (dryRunChanges d) = Inr (Some recipientChange)"
      and delta: "BigInt (bc_amount recipientChange) = Inr received"
      and need: "BigInt (amount requirements) = Inr required"
  shows "fst (verify nst signer w p requirements) =
           Inr (if received < required
                then \<lparr>isValid = False,
                      invalidReason = Some ''invalid_exact_sui_payload_amount_insufficient'',
                      invalidMessage = None, payer = Some who\<rparr>
                else \<lparr>isValid = True, invalidReason = None, invalidMessage = None,
                      payer = Some who\<rparr>)"
proof -
  have "checkSimulation nst requirements who d =
          Inr (if received < required
               then invalid ''invalid_exact_sui_payload_amount_insufficient'' None (Some who)
               else \<lparr>isValid = True, invalidReason = None, invalidMessage = None, payer = Some who\<rparr>)"
    using ok found delta need by (simp add: checkSimulation_def Let_def)
  with verify_preChecks[OF pre, of nst signer w] verifyTry_fulfilled[OF sig sim, of nst]
  show ?thesis by (simp add: invalid_def)
qed

theorem amount_threshold_witness:
  "BigInt ''9007199254740992'' = Inr 9007199254740992 \<and>
   BigInt ''9007199254740993'' = Inr 9007199254740993 \<and>
   fst (verify sampleNormalizeStructTag
          (createMockFacilitatorSigner (oneChange (AddressOwner MOCK_PAYTO) USDC_MAINNET ''9007199254740992''))
          emptyWorld createMockPayload (createMockRequirements\<lparr>amount := ''9007199254740993''\<rparr>)) =
     Inr \<lparr>isValid = False, invalidReason = Some ''invalid_exact_sui_payload_amount_insufficient'',
          invalidMessage = None, payer = Some MOCK_PAYER\<rparr>"
proof -
  let ?signer = "createMockFacilitatorSigner (oneChange (AddressOwner MOCK_PAYTO) USDC_MAINNET ''9007199254740992'')"
  let ?req = "createMockRequirements\<lparr>amount := ''9007199254740993''\<rparr>"
  let ?body = "\<lparr>signature = ''mock-signature-base64'', transaction = ''mock-transaction-base64''\<rparr>"
  let ?rc = "\<lparr>owner = AddressOwner MOCK_PAYTO, coinType = USDC_MAINNET, bc_amount = ''9007199254740992''\<rparr>"
  let ?d = "createSuccessfulDryRun (oneChange (AddressOwner MOCK_PAYTO) USDC_MAINNET ''9007199254740992'')"
  have pre: "preChecksPass createMockPayload ?req ?body"
    by (simp add: preChecksPass_def fixture_defs)
  have sig: "fst (verifySignature ?signer (chain emptyWorld) (transaction ?body) (signature ?body)
                       (network ?req)) = Inr MOCK_PAYER"
    by (simp add: fixture_defs)
  have sim: "fst (simulateTransaction ?signer (chain emptyWorld) (transaction ?body) (network ?req)) = Inr ?d"
    by (simp add: fixture_defs)
  have ok: "dryRunStatus ?d = Some ''success''"
    by (simp add: dryRunStatus_def fixture_defs)
  have found: "findRecipientChange sampleNormalizeStructTag ?req (dryRunChanges ?d) = Inr (Some ?rc)"
    by (simp add: dryRunChanges_def fixture_defs coinTypesEqual_def sampleNormalizeStructTag_def
          USDC_MAINNET_def)
  have delta: "BigInt (bc_amount ?rc) = Inr 9007199254740992"
    by (simp add: BigInt_def trimString_def isStrWhiteSpaceChar_def parseNumeral_def digitValue_def)
  have need: "BigInt (amount ?req) = Inr 9007199254740993"
    by (simp add: BigInt_def trimString_def isStrWhiteSpaceChar_def parseNumeral_def digitValue_def)
  from amount_threshold[OF pre sig sim ok found delta need] delta need
  show ?thesis by simp
qed




text \<open>
  C5, as stated, fails: both calls raise, the simulation rejects first, and the
  verdict is the simulation's although the signature recovery failed too.
\<close>

theorem simulation_failure_can_outrun_signature_failure:
  "fst (verifySignature
          ((createMockFacilitatorSigner [])
             \<lparr>verifySignature := (\<lambda>c tx sg net. (Inl (JsError ''Invalid signature''), 2)),
              simulateTransaction := (\<lambda>c tx net. (Inl (JsError ''fetch failed''), 1))\<rparr>)
          [] ''mock-transaction-base64'' ''mock-signature-base64'' SUI_MAINNET_CAIP2) =
     Inl (JsError ''Invalid signature'') \<and>
   fst (verify sampleNormalizeStructTag
          ((createMockFacilitatorSigner [])
             \<lparr>verifySignature := (\<lambda>c tx sg net. (Inl (JsError ''Invalid signature''), 2)),
              simulateTransaction := (\<lambda>c tx net. (Inl (JsError ''fetch failed''), 1))\<rparr>)
          emptyWorld createMockPayload createMockRequirements) =
     Inr \<lparr>isValid = False, invalidReason = Some ''transaction_simulation_failed'',
          invalidMessage = Some ''fetch failed'', payer = None\<rparr>"
  by (simp add: verify_defs fixture_defs)

text \<open>
  C5, amended. When one of the two calls raises an error that has a text, \<open>verify\<close>
  answers a response that is not valid, has that text as message and no payer, and it
  classifies the one failure that the joined promise reports: the signature recovery's,
  unless the simulation rejected strictly earlier (or alone). A reported failure of the
  signature recovery whose text contains \<^verbatim>\<open>Signature verification failed\<close> or
  \<^verbatim>\<open>Invalid signature\<close> gets the verdict of the signature failure; a reported failure
  of the simulation whose text contains neither gets \<^verbatim>\<open>transaction_simulation_failed\<close>.
  Nothing is said here of a signature failure without these words, or of a
  simulation failure with them.
\<close>

theorem parallel_failure_classification:
  assumes pre: "preChecksPass p requirements suiPayload"
      and s: "verifySignature signer (chain w) (transaction suiPayload) (signature suiPayload)
                (network requirements) = (rs, ts)"
      and d: "simulateTransaction signer (chain w) (transaction suiPayload) (network requirements) = (rd, td)"
      and shown: "errorText e = Inr message"
      and reported:
        "rs = Inl e \<and> (isl rd \<longrightarrow> ts \<le> td) \<and> mentionsSignature message \<or>
         rd = Inl e \<and> (isl rs \<longrightarrow> td < ts) \<and> \<not> mentionsSignature message"
  shows "fst (verify nst signer w p requirements) =
           Inr \<lparr>isValid = False,
                invalidReason =
                  Some (if rs = Inl e \<and> (isl rd \<longrightarrow> ts \<le> td)
                        then ''invalid_exact_sui_payload_transaction_signature_verification_failed''
                        else ''transaction_simulation_failed''),
                invalidMessage = Some message, payer = None\<rparr>"
proof -
  from reported
  have e: "rs = Inl e \<and> (isl rd \<longrightarrow> ts \<le> td) \<or> rd = Inl e \<and> (isl rs \<longrightarrow> td < ts)"
    by blast
  have v: "fst (verify nst signer w p requirements) =
             Inr (invalid (if mentionsSignature message
                           then ''invalid_exact_sui_payload_transaction_signature_verification_failed''
                           else ''transaction_simulation_failed'')
                    (Some message) None)"
    using verify_preChecks[OF pre, of nst signer w] verifyTry_rejected[OF s d e, of nst]
      verifyCatch_text[OF shown]
    by simp
  from reported
  have "mentionsSignature message = (rs = Inl e \<and> (isl rd \<longrightarrow> ts \<le> td))"
    by (cases rs; cases rd) auto
  with v show ?thesis by (simp add: invalid_def)
qed

theorem parallel_failure_classification_witness:
  "fst (verify sampleNormalizeStructTag
          ((createMockFacilitatorSigner [])
             \<lparr>verifySignature := (\<lambda>c tx sg net. (Inl (JsError ''Invalid signature''), 1)),
              simulateTransaction := (\<lambda>c tx net. (Inl (JsError ''fetch failed''), 1))\<rparr>)
          emptyWorld createMockPayload createMockRequirements) =
     Inr \<lparr>isValid = False,
          invalidReason = Some ''invalid_exact_sui_payload_transaction_signature_verification_failed'',
          invalidMessage = Some ''Invalid signature'', payer = None\<rparr>"
proof -
  let ?signer = "(createMockFacilitatorSigner [])
             \<lparr>verifySignature := (\<lambda>c tx sg net. (Inl (JsError ''Invalid signature''), 1)),
              simulateTransaction := (\<lambda>c tx net. (Inl (JsError ''fetch failed''), 1))\<rparr>"
  let ?body = "\<lparr>signature = ''mock-signature-base64'', transaction = ''mock-transaction-base64''\<rparr>"
  have pre: "preChecksPass createMockPayload createMockRequirements ?body"
    by (simp add: preChecksPass_def fixture_defs)
  have s: "verifySignature ?signer (chain emptyWorld) (transaction ?body) (signature ?body)
                (network createMockRequirements) = (Inl (JsError ''Invalid signature''), 1)"
    by (simp add: fixture_defs)
  have d: "simulateTransaction ?signer (chain emptyWorld) (transaction ?body)
                (network createMockRequirements) = (Inl (JsError ''fetch failed''), 1)"
    by (simp add: fixture_defs)
  have shown: "errorText (JsError ''Invalid signature'') = Inr ''Invalid signature''"
    by simp
  have marked: "mentionsSignature ''Invalid signature''"
    by (simp add: mentionsSignature_def)
  from parallel_failure_classification[OF pre s d shown, of sampleNormalizeStructTag] marked
  show ?thesis by simp
qed

subsection \<open>Matching the balance changes\<close>


lemma findRecipientChange_Some:
  "findRecipientChange nst requirements changes = Inr (Some rc) \<Longrightarrow>
     rc \<in> set changes \<and> extractAddress (owner rc) = payTo requirements \<and>
     coinTypesEqual nst (coinType rc) (asset requirements) = Inr True"
  by (induction changes) (auto split: if_splits sum.splits bool.splits)


lemma findRecipientChange_no_recipient:
  "\<forall>bc \<in> set changes. extractAddress (owner bc) \<noteq> payTo requirements \<Longrightarrow>
     findRecipientChange nst requirements changes = Inr None"
  by (induction changes) auto

lemma findAnyRecipientChange_None:
  "(findAnyRecipientChange requirements changes = None) =
     (\<forall>bc \<in> set changes. extractAddress (owner bc) \<noteq> payTo requirements)"
  by (auto simp: findAnyRecipientChange_def find_None_iff)

lemma findRecipientChange_wrong_asset:
  "\<forall>bc \<in> set changes. extractAddress (owner bc) = payTo requirements \<longrightarrow>
       coinTypesEqual nst (coinType bc) (asset requirements) = Inr False \<Longrightarrow>
     findRecipientChange nst requirements changes = Inr None"
  by (induction changes) auto

lemma extractAddress_nonempty:
  "a \<noteq> [] \<Longrightarrow> (extractAddress who = a) = (who = AddressOwner a)"
  by (cases who) auto

text \<open>
  The two mismatch verdicts, for a \<open>payTo\<close> that is not the empty text and coin types
  that \<open>nst\<close> normalizes: no change owned by the address \<open>payTo\<close> gives the recipient
  mismatch; such changes, all in another asset, give the asset mismatch.
\<close>

lemma mismatch_disambiguation:
  assumes pre: "preChecksPass p requirements suiPayload"
      and sig: "fst (verifySignature signer (chain w) (transaction suiPayload) (signature suiPayload)
                       (network requirements)) = Inr who"
      and sim: "fst (simulateTransaction signer (chain w) (transaction suiPayload)
                       (network requirements)) = Inr d"
      and ok: "dryRunStatus d = Some ''success''"
      and nonempty: "payTo requirements \<noteq> []"
  shows "(\<forall>bc \<in> set (dryRunChanges d). owner bc \<noteq> AddressOwner (payTo requirements)) \<longrightarrow>
           fst (verify nst signer w p requirements) =
             Inr (invalid ''invalid_exact_sui_payload_recipient_mismatch'' None (Some who))"
    and "(\<exists>bc \<in> set (dryRunChanges d). owner bc = AddressOwner (payTo requirements)) \<and>
         (\<forall>bc \<in> set (dryRunChanges d). owner bc = AddressOwner (payTo requirements) \<longrightarrow>
             coinTypesEqual nst (coinType bc) (asset requirements) = Inr False) \<longrightarrow>
           fst (verify nst signer w p requirements) =
             Inr (invalid ''invalid_exact_sui_payload_asset_mismatch'' None (Some who))"
proof -
  have v: "fst (verify nst signer w p requirements) =
             (case checkSimulation nst requirements who d of Inl e \<Rightarrow> verifyCatch e | Inr r \<Rightarrow> Inr r)"
    using verify_preChecks[OF pre, of nst signer w] verifyTry_fulfilled[OF sig sim, of nst]
    by (simp split: sum.splits)
  show "(\<forall>bc \<in> set (dryRunChanges d). owner bc \<noteq> AddressOwner (payTo requirements)) \<longrightarrow>
           fst (verify nst signer w p requirements) =
             Inr (invalid ''invalid_exact_sui_payload_recipient_mismatch'' None (Some who))"
  proof
    assume "\<forall>bc \<in> set (dryRunChanges d). owner bc \<noteq> AddressOwner (payTo requirements)"
    then have none: "\<forall>bc \<in> set (dryRunChanges d). extractAddress (owner bc) \<noteq> payTo requirements"
      using nonempty by (simp add: extractAddress_nonempty)
    from findRecipientChange_no_recipient[OF none, of nst] none ok v
    show "fst (verify nst signer w p requirements) =
             Inr (invalid ''invalid_exact_sui_payload_recipient_mismatch'' None (Some who))"
      by (simp add: checkSimulation_def Let_def findAnyRecipientChange_None[symmetric])
  qed
  show "(\<exists>bc \<in> set (dryRunChanges d). owner bc = AddressOwner (payTo requirements)) \<and>
         (\<forall>bc \<in> set (dryRunChanges d). owner bc = AddressOwner (payTo requirements) \<longrightarrow>
             coinTypesEqual nst (coinType bc) (asset requirements) = Inr False) \<longrightarrow>
           fst (verify nst signer w p requirements) =
             Inr (invalid ''invalid_exact_sui_payload_asset_mismatch'' None (Some who))"
  proof
    assume a: "(\<exists>bc \<in> set (dryRunChanges d). owner bc = AddressOwner (payTo requirements)) \<and>
         (\<forall>bc \<in> set (dryRunChanges d). owner bc = AddressOwner (payTo requirements) \<longrightarrow>
             coinTypesEqual nst (coinType bc) (asset requirements) = Inr False)"
    then have wrong: "\<forall>bc \<in> set (dryRunChanges d). extractAddress (owner bc) = payTo requirements \<longrightarrow>
             coinTypesEqual nst (coinType bc) (asset requirements) = Inr False"
      using nonempty by (simp add: extractAddress_nonempty)
    from a obtain bc where "bc \<in> set (dryRunChanges d)" "extractAddress (owner bc) = payTo requirements"
      by auto
    then have "findAnyRecipientChange requirements (dryRunChanges d) \<noteq> None"
      unfolding findAnyRecipientChange_None by blast
    then obtain x where "findAnyRecipientChange requirements (dryRunChanges d) = Some x" by auto
    with findRecipientChange_wrong_asset[OF wrong] ok v
    show "fst (verify nst signer w p requirements) =
             Inr (invalid ''invalid_exact_sui_payload_asset_mismatch'' None (Some who))"
      by (simp add: checkSimulation_def Let_def)
  qed
qed

text \<open>
  C2 at the empty \<open>payTo\<close>: \<open>extractAddress\<close> answers the empty text for an owner that
  is no address, so the one change, owned by nobody's address, counts as the
  recipient's; \<open>verify\<close> reports an asset mismatch where no change is owned by the
  address \<open>payTo\<close>.
\<close>

theorem empty_payTo_turns_recipient_mismatch_into_asset_mismatch:
  "map owner (oneChange Immutable SUI_COIN_TYPE ''100000'') = [Immutable] \<and>
   fst (verify sampleNormalizeStructTag
          (createMockFacilitatorSigner (oneChange Immutable SUI_COIN_TYPE ''100000''))
          emptyWorld createMockPayload (createMockRequirements\<lparr>payTo := []\<rparr>)) =
     Inr \<lparr>isValid = False, invalidReason = Some ''invalid_exact_sui_payload_asset_mismatch'',
          invalidMessage = None, payer = Some MOCK_PAYER\<rparr>"
  by (simp add: verify_defs fixture_defs sampleNormalizeStructTag_def USDC_MAINNET_def
        SUI_COIN_TYPE_def)

text \<open>
  C7 at the empty \<open>payTo\<close>: a change with a shared owner is the change the first
  \<^verbatim>\<open>find\<close> returns, and \<open>verify\<close> accepts the payment.
\<close>

theorem shared_owner_accepted_for_empty_payTo:
  "findRecipientChange sampleNormalizeStructTag (createMockRequirements\<lparr>payTo := []\<rparr>)
     (oneChange (Shared ''7'') USDC_MAINNET ''100000'') =
     Inr (Some \<lparr>owner = Shared ''7'', coinType = USDC_MAINNET, bc_amount = ''100000''\<rparr>) \<and>
   fst (verify sampleNormalizeStructTag
          (createMockFacilitatorSigner (oneChange (Shared ''7'') USDC_MAINNET ''100000''))
          emptyWorld createMockPayload (createMockRequirements\<lparr>payTo := []\<rparr>)) =
     Inr \<lparr>isValid = True, invalidReason = None, invalidMessage = None, payer = Some MOCK_PAYER\<rparr>"
  by (simp add: verify_defs fixture_defs sampleNormalizeStructTag_def USDC_MAINNET_def BigInt_def
        trimString_def isStrWhiteSpaceChar_def parseNumeral_def digitValue_def)

text \<open>For every other \<open>payTo\<close>, the change found is owned by the address \<open>payTo\<close>.\<close>

lemma ownership_filter:
  assumes "payTo requirements \<noteq> []"
      and "findRecipientChange nst requirements changes = Inr (Some rc)"
  shows "owner rc = AddressOwner (payTo requirements)"
  using findRecipientChange_Some[OF assms(2)] assms(1) by (simp add: extractAddress_nonempty)




end
